theory Spec2Isabelle
  imports Main "HOL-Library.Mapping" "HOL-Library.AList_Mapping"
begin

section \<open>The execution environment\<close>

text \<open>
  The framework is a set of C++ templates over a type parameter \<open>T\<close>. In the embedding
  the template argument is an explicit argument of type \<open>'t\<close>. What the language runtime
  supplies is a parameter of every function that uses it:
  \<^item> \<open>tname T\<close> is \<open>typeid(T).name()\<close>, the (mangled) name of the type;
  \<^item> \<open>cxa_demangle s\<close> is \<open>abi::__cxa_demangle(s, nullptr, nullptr, &status)\<close>: it is
    \<open>Some d\<close> when the call sets \<open>status\<close> to 0 and returns the non-null string \<open>d\<close>, and
    \<open>None\<close> otherwise.
  Objects handed around as \<open>const void*\<close>, \<open>void*\<close> or \<open>T&\<close> are values of one type \<open>'o\<close>,
  and \<open>std::any\<close> is a type \<open>'a\<close>. The process-wide singletons are explicit registry
  states; an operation that mutates a registry returns the new state. Every operation
  holds the registry's mutex for its whole duration, so it is one atomic step, and the
  lock itself is not part of the state.
\<close>

section \<open>Field and message descriptors\<close>

datatype FieldType =
  INT32 | INT64 | UINT32 | UINT64 | FLOAT | DOUBLE | STRING | BOOL | BYTES | MESSAGE

record ('o, 'a) FieldDescriptor =
  name :: string
  type :: FieldType
  field_number :: int
  getter :: "'o \<Rightarrow> 'a"
  setter :: "'o \<Rightarrow> 'a \<Rightarrow> 'o"

text \<open>
  Two kinds of member names cannot be written as they are in the source and carry a
  prime instead: \<open>fields'\<close> is the member \<open>fields\<close> (the record package reserves that
  name), and a private member with a trailing underscore, such as \<open>descriptors_\<close>,
  is \<open>descriptors'\<close>.
\<close>

record ('o, 'a) MessageDescriptor =
  message_name :: string
  fields' :: "('o, 'a) FieldDescriptor list"

definition AddField ::
  "('o, 'a) MessageDescriptor \<Rightarrow> ('o, 'a) FieldDescriptor \<Rightarrow> ('o, 'a) MessageDescriptor" where
  "AddField desc field = desc\<lparr>fields' := fields' desc @ [field]\<rparr>"

text \<open>
  The two lookups walk the vector from the front and return the address of the first
  element that matches, or \<open>nullptr\<close>. The loop is the recursion over the list; the
  address of an element is the element. A field number is a C++ \<open>int\<close> that is only
  stored and compared, never computed with, so it is an \<open>int\<close> here.
\<close>

primrec GetField_loop ::
  "('o, 'a) FieldDescriptor list \<Rightarrow> string \<Rightarrow> ('o, 'a) FieldDescriptor option" where
  "GetField_loop [] nm = None"
| "GetField_loop (field # rest) nm =
     (if name field = nm then Some field else GetField_loop rest nm)"

definition GetField ::
  "('o, 'a) MessageDescriptor \<Rightarrow> string \<Rightarrow> ('o, 'a) FieldDescriptor option" where
  "GetField desc nm = GetField_loop (fields' desc) nm"

primrec GetFieldByNumber_loop ::
  "('o, 'a) FieldDescriptor list \<Rightarrow> int \<Rightarrow> ('o, 'a) FieldDescriptor option" where
  "GetFieldByNumber_loop [] number = None"
| "GetFieldByNumber_loop (field # rest) number =
     (if field_number field = number then Some field else GetFieldByNumber_loop rest number)"

definition GetFieldByNumber ::
  "('o, 'a) MessageDescriptor \<Rightarrow> int \<Rightarrow> ('o, 'a) FieldDescriptor option" where
  "GetFieldByNumber desc number = GetFieldByNumber_loop (fields' desc) number"

section \<open>Serializer interfaces\<close>

text \<open>
  \<open>ISerializer\<close> and \<open>ITypeSerializer<T>\<close> are abstract classes: an implementation is a
  record of its virtual functions. \<open>Serialize\<close> receives the caller's output string and
  returns the flag together with the string as it leaves it; \<open>Deserialize\<close> receives the
  caller's object and returns the flag together with the object as it leaves it. The
  repository has no implementation of either interface. One is taken here to be a
  function of its arguments: a serializer that keeps state between calls, or that
  throws, is outside the model.
\<close>

record ('o, 'a) ISerializer =
  ISerializer_Serialize :: "'o \<Rightarrow> ('o, 'a) MessageDescriptor \<Rightarrow> string \<Rightarrow> bool \<times> string"
  ISerializer_Deserialize :: "string \<Rightarrow> 'o \<Rightarrow> ('o, 'a) MessageDescriptor \<Rightarrow> bool \<times> 'o"
  ISerializer_GetName :: string

record 'o ITypeSerializer =
  ITypeSerializer_Serialize :: "'o \<Rightarrow> string \<Rightarrow> bool \<times> string"
  ITypeSerializer_Deserialize :: "string \<Rightarrow> 'o \<Rightarrow> bool \<times> 'o"
  ITypeSerializer_GetName :: string

text \<open>
  A \<open>TypeSerializerWrapper<T>\<close> object carries its dynamic type, which is fixed by the
  template argument it was instantiated with, and the \<open>unique_ptr\<close> it owns (\<open>None\<close> is
  the null pointer). No class derives from a wrapper, so
  \<open>dynamic_cast<TypeSerializerWrapper<T>*>\<close> yields the object when its dynamic type is
  the wrapper of \<open>T\<close>, and null otherwise.
\<close>

record ('t, 'o) TypeSerializerWrapper =
  wrapped_type :: 't
  serializer' :: "'o ITypeSerializer option"

definition Get :: "('t, 'o) TypeSerializerWrapper \<Rightarrow> 'o ITypeSerializer option" where
  "Get wrapper = serializer' wrapper"

definition dynamic_cast ::
  "'t \<Rightarrow> ('t, 'o) TypeSerializerWrapper \<Rightarrow> ('t, 'o) TypeSerializerWrapper option" where
  "dynamic_cast T base = (if wrapped_type base = T then Some base else None)"

section \<open>ReflectionRegistry\<close>

record ('o, 'a) ReflectionRegistry =
  descriptors' :: "(string, ('o, 'a) MessageDescriptor) mapping"

definition ReflectionRegistry_Instance :: "('o, 'a) ReflectionRegistry" where
  "ReflectionRegistry_Instance = \<lparr>descriptors' = Mapping.empty\<rparr>"

definition ReflectionRegistry_RegisterType ::
  "string \<Rightarrow> ('o, 'a) MessageDescriptor \<Rightarrow> ('o, 'a) ReflectionRegistry \<Rightarrow> ('o, 'a) ReflectionRegistry" where
  "ReflectionRegistry_RegisterType type_name descriptor reg =
     reg\<lparr>descriptors' := Mapping.update type_name descriptor (descriptors' reg)\<rparr>"

definition GetDescriptor ::
  "('o, 'a) ReflectionRegistry \<Rightarrow> string \<Rightarrow> ('o, 'a) MessageDescriptor option" where
  "GetDescriptor reg type_name = Mapping.lookup (descriptors' reg) type_name"

definition HasType :: "('o, 'a) ReflectionRegistry \<Rightarrow> string \<Rightarrow> bool" where
  "HasType reg type_name = (Mapping.lookup (descriptors' reg) type_name \<noteq> None)"

definition ReflectionRegistry_Clear :: "('o, 'a) ReflectionRegistry \<Rightarrow> ('o, 'a) ReflectionRegistry" where
  "ReflectionRegistry_Clear reg = reg\<lparr>descriptors' := Mapping.empty\<rparr>"

section \<open>SerializerRegistry\<close>

text \<open>
  The generic map holds \<open>unique_ptr<ISerializer>\<close> values, which may be null; the
  type-specific map holds wrappers made by \<open>make_unique\<close>, which are never null.
\<close>

record ('t, 'o, 'a) SerializerRegistry =
  serializers' :: "(string, ('o, 'a) ISerializer option) mapping"
  type_serializers' :: "(string, ('t, 'o) TypeSerializerWrapper) mapping"

definition SerializerRegistry_Instance :: "('t, 'o, 'a) SerializerRegistry" where
  "SerializerRegistry_Instance = \<lparr>serializers' = Mapping.empty, type_serializers' = Mapping.empty\<rparr>"

definition MakeTypeSerializerKey :: "('t \<Rightarrow> string) \<Rightarrow> 't \<Rightarrow> string \<Rightarrow> string" where
  "MakeTypeSerializerKey tname T serializer_name = tname T @ '':'' @ serializer_name"

definition RegisterSerializer ::
  "string \<Rightarrow> ('o, 'a) ISerializer option \<Rightarrow> ('t, 'o, 'a) SerializerRegistry
     \<Rightarrow> ('t, 'o, 'a) SerializerRegistry" where
  "RegisterSerializer nm serializer reg =
     reg\<lparr>serializers' := Mapping.update nm serializer (serializers' reg)\<rparr>"

definition GetSerializer ::
  "('t, 'o, 'a) SerializerRegistry \<Rightarrow> string \<Rightarrow> ('o, 'a) ISerializer option" where
  "GetSerializer reg nm =
     (case Mapping.lookup (serializers' reg) nm of
        Some ptr \<Rightarrow> ptr
      | None \<Rightarrow> None)"

definition RegisterTypeSerializer ::
  "('t \<Rightarrow> string) \<Rightarrow> 't \<Rightarrow> string \<Rightarrow> 'o ITypeSerializer option
     \<Rightarrow> ('t, 'o, 'a) SerializerRegistry \<Rightarrow> ('t, 'o, 'a) SerializerRegistry" where
  "RegisterTypeSerializer tname T serializer_name serializer reg =
     (let key = MakeTypeSerializerKey tname T serializer_name
      in reg\<lparr>type_serializers' :=
           Mapping.update key \<lparr>wrapped_type = T, serializer' = serializer\<rparr> (type_serializers' reg)\<rparr>)"

definition GetTypeSerializer ::
  "('t \<Rightarrow> string) \<Rightarrow> ('t, 'o, 'a) SerializerRegistry \<Rightarrow> 't \<Rightarrow> string \<Rightarrow> 'o ITypeSerializer option" where
  "GetTypeSerializer tname reg T serializer_name =
     (let key = MakeTypeSerializerKey tname T serializer_name
      in case Mapping.lookup (type_serializers' reg) key of
           Some base \<Rightarrow>
             (case dynamic_cast T base of
                Some wrapper \<Rightarrow> Get wrapper
              | None \<Rightarrow> None)
         | None \<Rightarrow> None)"

definition HasTypeSerializer ::
  "('t \<Rightarrow> string) \<Rightarrow> ('t, 'o, 'a) SerializerRegistry \<Rightarrow> 't \<Rightarrow> string \<Rightarrow> bool" where
  "HasTypeSerializer tname reg T serializer_name =
     (let key = MakeTypeSerializerKey tname T serializer_name
      in Mapping.lookup (type_serializers' reg) key \<noteq> None)"

definition SerializerRegistry_Clear :: "('t, 'o, 'a) SerializerRegistry \<Rightarrow> ('t, 'o, 'a) SerializerRegistry" where
  "SerializerRegistry_Clear reg = reg\<lparr>serializers' := Mapping.empty, type_serializers' := Mapping.empty\<rparr>"

section \<open>SerializerFactory\<close>

definition GetDemangled :: "('t \<Rightarrow> string) \<Rightarrow> (string \<Rightarrow> string option) \<Rightarrow> 't \<Rightarrow> string" where
  "GetDemangled tname cxa_demangle T =
     (case cxa_demangle (tname T) of
        Some demangled \<Rightarrow> demangled
      | None \<Rightarrow> tname T)"

text \<open>
  The two entry points read the registries and do not change them. \<open>Serialize\<close> returns
  its flag and the caller's \<open>output\<close>, \<open>Deserialize\<close> its flag and the caller's \<open>obj\<close>;
  on the final \<open>return false\<close> neither has been touched.
\<close>

definition Serialize ::
  "('t \<Rightarrow> string) \<Rightarrow> (string \<Rightarrow> string option) \<Rightarrow> ('t, 'o, 'a) SerializerRegistry
     \<Rightarrow> ('o, 'a) ReflectionRegistry \<Rightarrow> 't \<Rightarrow> 'o \<Rightarrow> string \<Rightarrow> string \<Rightarrow> bool \<times> string" where
  "Serialize tname cxa_demangle sreg rreg T obj serializer_name output =
     (case GetTypeSerializer tname sreg T serializer_name of
        Some type_serializer \<Rightarrow> ITypeSerializer_Serialize type_serializer obj output
      | None \<Rightarrow>
          (case GetSerializer sreg serializer_name of
             Some generic_serializer \<Rightarrow>
               (let type_name = GetDemangled tname cxa_demangle T
                in case GetDescriptor rreg type_name of
                     Some descriptor \<Rightarrow>
                       ISerializer_Serialize generic_serializer obj descriptor output
                   | None \<Rightarrow> (False, output))
           | None \<Rightarrow> (False, output)))"

definition Deserialize ::
  "('t \<Rightarrow> string) \<Rightarrow> (string \<Rightarrow> string option) \<Rightarrow> ('t, 'o, 'a) SerializerRegistry
     \<Rightarrow> ('o, 'a) ReflectionRegistry \<Rightarrow> 't \<Rightarrow> string \<Rightarrow> 'o \<Rightarrow> string \<Rightarrow> bool \<times> 'o" where
  "Deserialize tname cxa_demangle sreg rreg T input obj serializer_name =
     (case GetTypeSerializer tname sreg T serializer_name of
        Some type_serializer \<Rightarrow> ITypeSerializer_Deserialize type_serializer input obj
      | None \<Rightarrow>
          (case GetSerializer sreg serializer_name of
             Some generic_serializer \<Rightarrow>
               (let type_name = GetDemangled tname cxa_demangle T
                in case GetDescriptor rreg type_name of
                     Some descriptor \<Rightarrow>
                       ISerializer_Deserialize generic_serializer input obj descriptor
                   | None \<Rightarrow> (False, obj))
           | None \<Rightarrow> (False, obj)))"

section \<open>Static registration\<close>

text \<open>
  \<open>GRLRPC_REGISTER_TYPE(class_type, ...)\<close> expands to a static object whose constructor
  builds a descriptor named by the spelling of the macro argument (\<open>#class_type\<close>), runs
  the statements of \<open>__VA_ARGS__\<close> on it and stores it under that same spelling. The
  statements are \<open>GRLRPC_REGISTER_FIELD\<close> lines, each of which ends in \<open>desc.AddField\<close>;
  \<open>va_args\<close> is the list of the fields they add, in order.
\<close>

definition GRLRPC_REGISTER_TYPE ::
  "string \<Rightarrow> ('o, 'a) FieldDescriptor list \<Rightarrow> ('o, 'a) ReflectionRegistry \<Rightarrow> ('o, 'a) ReflectionRegistry" where
  "GRLRPC_REGISTER_TYPE class_type va_args reg =
     (let desc = \<lparr>message_name = class_type, fields' = []\<rparr>;
          desc = foldl AddField desc va_args
      in ReflectionRegistry_RegisterType class_type desc reg)"

section \<open>TypeRegistry\<close>

text \<open>
  \<open>GetAllTypeNames\<close> here and \<open>GetRegisteredTypes\<close> of the \<open>ReflectionRegistry\<close> enumerate a
  hash map, in an order the language leaves open; nothing below depends on them, and
  they are left out.
\<close>

definition DemangleTypeName :: "(string \<Rightarrow> string option) \<Rightarrow> string \<Rightarrow> string" where
  "DemangleTypeName cxa_demangle mangled_name =
     (case cxa_demangle mangled_name of
        Some demangled \<Rightarrow> demangled
      | None \<Rightarrow> mangled_name)"

definition GetDemangledTypeName :: "('t \<Rightarrow> string) \<Rightarrow> (string \<Rightarrow> string option) \<Rightarrow> 't \<Rightarrow> string" where
  "GetDemangledTypeName tname cxa_demangle T = DemangleTypeName cxa_demangle (tname T)"

record TypeRegistry =
  type_names' :: "(string, string) mapping"
  name_to_type_id' :: "(string, string) mapping"

definition TypeRegistry_Instance :: TypeRegistry where
  "TypeRegistry_Instance = \<lparr>type_names' = Mapping.empty, name_to_type_id' = Mapping.empty\<rparr>"

definition TypeRegistry_RegisterType ::
  "('t \<Rightarrow> string) \<Rightarrow> (string \<Rightarrow> string option) \<Rightarrow> 't \<Rightarrow> string \<Rightarrow> TypeRegistry \<Rightarrow> TypeRegistry" where
  "TypeRegistry_RegisterType tname cxa_demangle T custom_name reg =
     (let type_id = tname T;
          type_name = (if custom_name = [] then DemangleTypeName cxa_demangle type_id
                       else custom_name)
      in reg\<lparr>type_names' := Mapping.update type_id type_name (type_names' reg),
             name_to_type_id' := Mapping.update type_name type_id (name_to_type_id' reg)\<rparr>)"

definition GetTypeName :: "('t \<Rightarrow> string) \<Rightarrow> TypeRegistry \<Rightarrow> 't \<Rightarrow> string" where
  "GetTypeName tname reg T =
     (let type_id = tname T
      in case Mapping.lookup (type_names' reg) type_id of
           Some registered \<Rightarrow> registered
         | None \<Rightarrow> [])"

definition IsTypeRegistered :: "('t \<Rightarrow> string) \<Rightarrow> TypeRegistry \<Rightarrow> 't \<Rightarrow> bool" where
  "IsTypeRegistered tname reg T =
     (let type_id = tname T
      in Mapping.lookup (type_names' reg) type_id \<noteq> None)"

definition HasTypeName :: "TypeRegistry \<Rightarrow> string \<Rightarrow> bool" where
  "HasTypeName reg type_name = (Mapping.lookup (name_to_type_id' reg) type_name \<noteq> None)"

definition GetRegisteredTypeCount :: "TypeRegistry \<Rightarrow> nat" where
  "GetRegisteredTypeCount reg = Mapping.size (type_names' reg)"

definition TypeRegistry_Clear :: "TypeRegistry \<Rightarrow> TypeRegistry" where
  "TypeRegistry_Clear reg = reg\<lparr>type_names' := Mapping.empty, name_to_type_id' := Mapping.empty\<rparr>"

text \<open>
  A history of the registry: the calls \<open>RegisterType<T>(custom_name)\<close> of a program run,
  one after the other.
\<close>

fun RegisterTypes ::
  "('t \<Rightarrow> string) \<Rightarrow> (string \<Rightarrow> string option) \<Rightarrow> ('t \<times> string) list \<Rightarrow> TypeRegistry \<Rightarrow> TypeRegistry" where
  "RegisterTypes tname cxa_demangle [] reg = reg"
| "RegisterTypes tname cxa_demangle ((T, custom_name) # calls) reg =
     RegisterTypes tname cxa_demangle calls (TypeRegistry_RegisterType tname cxa_demangle T custom_name reg)"

section \<open>A concrete program\<close>

text \<open>
  The types of the examples: the three classes of \<open>tests/type_registry_test.cpp\<close>; a
  class \<open>Point\<close> with two unsigned members \<open>x\<close> and \<open>y\<close>, declared in the global
  namespace, in a namespace \<open>app\<close>, and in the unnamed namespaces of two translation
  units; and a class \<open>Segment\<close> with two members of class \<open>Point\<close>. Their \<open>typeid\<close> names
  and the demangler's answers are those of the Itanium C++ ABI; the two classes of the
  unnamed namespaces are different types with one and the same name.
\<close>

datatype cpp_type =
  TestClass1 | TestClass2 | NestedClass | Point | AppPoint | AnonPointA | AnonPointB | Segment

fun typeid_name :: "cpp_type \<Rightarrow> string" where
  "typeid_name TestClass1 = ''10TestClass1''"
| "typeid_name TestClass2 = ''10TestClass2''"
| "typeid_name NestedClass = ''N6nested11NestedClassE''"
| "typeid_name Point = ''5Point''"
| "typeid_name AppPoint = ''N3app5PointE''"
| "typeid_name AnonPointA = ''N12_GLOBAL__N_15PointE''"
| "typeid_name AnonPointB = ''N12_GLOBAL__N_15PointE''"
| "typeid_name Segment = ''7Segment''"

definition demangler :: "string \<Rightarrow> string option" where
  "demangler = map_of
     [(''10TestClass1'', ''TestClass1''),
      (''10TestClass2'', ''TestClass2''),
      (''N6nested11NestedClassE'', ''nested::NestedClass''),
      (''5Point'', ''Point''),
      (''N3app5PointE'', ''app::Point''),
      (''N12_GLOBAL__N_15PointE'', ''(anonymous namespace)::Point''),
      (''7Segment'', ''Segment'')]"

text \<open>
  An object is the list of its unsigned words: a \<open>Point\<close> is \<open>[x, y]\<close>, a \<open>Segment\<close> the
  four words of its two points. A member is a range of the object, and the value of a
  field the words of that range.
\<close>

type_synonym object = "nat list"

definition member_field :: "string \<Rightarrow> FieldType \<Rightarrow> int \<Rightarrow> nat \<Rightarrow> nat \<Rightarrow> (object, nat list) FieldDescriptor" where
  "member_field nm ty number offset width =
     \<lparr>name = nm, type = ty, field_number = number,
      getter = (\<lambda>obj. take width (drop offset obj)),
      setter = (\<lambda>obj v. take offset obj @ v @ drop (offset + width) obj)\<rparr>"

definition point_fields :: "(object, nat list) FieldDescriptor list" where
  "point_fields = [member_field ''x'' UINT32 1 0 1, member_field ''y'' UINT32 2 1 1]"

definition segment_fields :: "(object, nat list) FieldDescriptor list" where
  "segment_fields = [member_field ''from'' MESSAGE 1 0 2, member_field ''to'' MESSAGE 2 2 2]"

text \<open>
  A specialized serializer for \<open>Point\<close>: \<open>x\<close> and \<open>y\<close> in unary, as runs of the letters
  \<open>x\<close> and \<open>y\<close>.
\<close>

definition PointTallySerializer :: "object ITypeSerializer" where
  "PointTallySerializer =
     \<lparr>ITypeSerializer_Serialize =
        (\<lambda>obj output.
           case obj of
             [x, y] \<Rightarrow> (True, replicate x CHR ''x'' @ replicate y CHR ''y'')
           | _ \<Rightarrow> (False, output)),
      ITypeSerializer_Deserialize =
        (\<lambda>input obj. (True, [length (filter (\<lambda>c. c = CHR ''x'') input),
                              length (filter (\<lambda>c. c = CHR ''y'') input)])),
      ITypeSerializer_GetName = ''tally''\<rparr>"

text \<open>
  A generic serializer that writes the shape of a message, its name and the names of
  its fields, and rejects a descriptor with a nested \<open>MESSAGE\<close> field. Its
  \<open>Deserialize\<close> accepts any input and leaves the object as it is.
\<close>

definition ShapeSerializer :: "('o, 'a) ISerializer" where
  "ShapeSerializer =
     \<lparr>ISerializer_Serialize =
        (\<lambda>obj desc output.
           if list_ex (\<lambda>field. type field = MESSAGE) (fields' desc) then (False, output)
           else (True, message_name desc @ concat (map (\<lambda>field. '','' @ name field) (fields' desc)))),
      ISerializer_Deserialize = (\<lambda>input obj desc. (True, obj)),
      ISerializer_GetName = ''shape''\<rparr>"

text \<open>
  The registries of the examples: the tally serializer registered for \<open>Point\<close> under
  \<open>bin\<close>; the shape serializer registered under \<open>shape\<close>; and the descriptors stored by
  \<open>GRLRPC_REGISTER_TYPE(Point, ...)\<close> and \<open>GRLRPC_REGISTER_TYPE(Segment, ...)\<close>.
\<close>

definition tally_registry :: "(cpp_type, object, nat list) SerializerRegistry" where
  "tally_registry =
     RegisterTypeSerializer typeid_name Point ''bin'' (Some PointTallySerializer)
       SerializerRegistry_Instance"

definition shape_registry :: "(cpp_type, object, nat list) SerializerRegistry" where
  "shape_registry = RegisterSerializer ''shape'' (Some ShapeSerializer) SerializerRegistry_Instance"

definition point_reflection :: "(object, nat list) ReflectionRegistry" where
  "point_reflection = GRLRPC_REGISTER_TYPE ''Point'' point_fields ReflectionRegistry_Instance"

definition segment_reflection :: "(object, nat list) ReflectionRegistry" where
  "segment_reflection = GRLRPC_REGISTER_TYPE ''Segment'' segment_fields ReflectionRegistry_Instance"

section \<open>Descriptors: order of the fields, lookup\<close>

lemma GetField_loop_find: "GetField_loop fs nm = List.find (\<lambda>field. name field = nm) fs"
  by (induction fs) simp_all

lemma GetFieldByNumber_loop_find:
  "GetFieldByNumber_loop fs number = List.find (\<lambda>field. field_number field = number) fs"
  by (induction fs) simp_all

lemma fields_foldl_AddField: "fields' (foldl AddField desc fs) = fields' desc @ fs"
  by (induction fs arbitrary: desc) (simp_all add: AddField_def)

lemma message_name_foldl_AddField: "message_name (foldl AddField desc fs) = message_name desc"
  by (induction fs arbitrary: desc) (simp_all add: AddField_def)

text \<open>
  Claim C7. \<open>AddField\<close> appends, so the fields stand in the order in which they were
  added, whatever number of them is added. \<open>GetField\<close> and \<open>GetFieldByNumber\<close> return
  null exactly when no field has the name or the number, and otherwise the first field
  of the vector that has it: the field at an index below which no field matches.
\<close>

theorem MessageDescriptor_order_and_lookup:
  "fields' (AddField desc field) = fields' desc @ [field]
   \<and> fields' (foldl AddField desc fs) = fields' desc @ fs
   \<and> (GetField desc nm = None \<longleftrightarrow> (\<forall>f \<in> set (fields' desc). name f \<noteq> nm))
   \<and> (GetField desc nm = Some f \<longleftrightarrow>
        (\<exists>i < length (fields' desc). f = fields' desc ! i \<and> name f = nm
           \<and> (\<forall>j < i. name (fields' desc ! j) \<noteq> nm)))
   \<and> (GetFieldByNumber desc number = None
        \<longleftrightarrow> (\<forall>f \<in> set (fields' desc). field_number f \<noteq> number))
   \<and> (GetFieldByNumber desc number = Some f \<longleftrightarrow>
        (\<exists>i < length (fields' desc). f = fields' desc ! i \<and> field_number f = number
           \<and> (\<forall>j < i. field_number (fields' desc ! j) \<noteq> number)))"
proof -
  have a: "fields' (AddField desc field) = fields' desc @ [field]"
    by (simp add: AddField_def)
  have b: "fields' (foldl AddField desc fs) = fields' desc @ fs"
    by (rule fields_foldl_AddField)
  have c: "GetField desc nm = None \<longleftrightarrow> (\<forall>f \<in> set (fields' desc). name f \<noteq> nm)"
    by (auto simp add: GetField_def GetField_loop_find find_None_iff)
  have d: "GetField desc nm = Some f \<longleftrightarrow>
        (\<exists>i < length (fields' desc). f = fields' desc ! i \<and> name f = nm
           \<and> (\<forall>j < i. name (fields' desc ! j) \<noteq> nm))"
    unfolding GetField_def GetField_loop_find find_Some_iff by auto
  have e: "GetFieldByNumber desc number = None
        \<longleftrightarrow> (\<forall>f \<in> set (fields' desc). field_number f \<noteq> number)"
    by (auto simp add: GetFieldByNumber_def GetFieldByNumber_loop_find find_None_iff)
  have f: "GetFieldByNumber desc number = Some f \<longleftrightarrow>
        (\<exists>i < length (fields' desc). f = fields' desc ! i \<and> field_number f = number
           \<and> (\<forall>j < i. field_number (fields' desc ! j) \<noteq> number))"
    unfolding GetFieldByNumber_def GetFieldByNumber_loop_find find_Some_iff by auto
  from a b c d e f show ?thesis by blast
qed

theorem MessageDescriptor_order_and_lookup_witness:
  "fields' (foldl AddField \<lparr>message_name = ''Point'', fields' = []\<rparr> point_fields) = point_fields
   \<and> ''z'' \<notin> set (map name point_fields)
   \<and> GetField \<lparr>message_name = ''Point'', fields' = point_fields\<rparr> ''z'' = None
   \<and> 3 \<notin> set (map field_number point_fields)
   \<and> GetFieldByNumber \<lparr>message_name = ''Point'', fields' = point_fields\<rparr> 3 = None
   \<and> GetField \<lparr>message_name = ''Point'', fields' = point_fields @ point_fields\<rparr> ''y''
       = Some ((point_fields @ point_fields) ! 1)"
proof -
  have z: "\<forall>f \<in> set (fields' \<lparr>message_name = ''Point'', fields' = point_fields\<rparr>). name f \<noteq> ''z''"
    by (simp add: point_fields_def member_field_def)
  have n: "\<forall>f \<in> set (fields' \<lparr>message_name = ''Point'', fields' = point_fields\<rparr>). field_number f \<noteq> 3"
    by (simp add: point_fields_def member_field_def)
  have first: "\<exists>i < length (fields' \<lparr>message_name = ''Point'', fields' = point_fields @ point_fields\<rparr>).
      (point_fields @ point_fields) ! 1
        = fields' \<lparr>message_name = ''Point'', fields' = point_fields @ point_fields\<rparr> ! i
      \<and> name ((point_fields @ point_fields) ! 1) = ''y''
      \<and> (\<forall>j < i. name (fields' \<lparr>message_name = ''Point'', fields' = point_fields @ point_fields\<rparr> ! j) \<noteq> ''y'')"
    by (rule exI [of _ 1]) (simp add: point_fields_def member_field_def)
  have order: "fields' (foldl AddField \<lparr>message_name = ''Point'', fields' = []\<rparr> point_fields) = point_fields"
    using MessageDescriptor_order_and_lookup
            [where desc = "\<lparr>message_name = ''Point'', fields' = []\<rparr>" and fs = point_fields]
    by simp
  have absent: "GetField \<lparr>message_name = ''Point'', fields' = point_fields\<rparr> ''z'' = None
      \<and> GetFieldByNumber \<lparr>message_name = ''Point'', fields' = point_fields\<rparr> 3 = None"
    using MessageDescriptor_order_and_lookup
            [where desc = "\<lparr>message_name = ''Point'', fields' = point_fields\<rparr>"
               and nm = "''z''" and number = 3] z n
    by blast
  have found: "GetField \<lparr>message_name = ''Point'', fields' = point_fields @ point_fields\<rparr> ''y''
       = Some ((point_fields @ point_fields) ! 1)"
    using MessageDescriptor_order_and_lookup
            [where desc = "\<lparr>message_name = ''Point'', fields' = point_fields @ point_fields\<rparr>"
               and nm = "''y''" and f = "(point_fields @ point_fields) ! 1"] first
    by blast
  have names: "''z'' \<notin> set (map name point_fields)"
    by (simp add: point_fields_def member_field_def)
  have numbers: "3 \<notin> set (map field_number point_fields)"
    by (simp add: point_fields_def member_field_def)
  from order absent found names numbers show ?thesis by simp
qed

section \<open>TypeRegistry: absence, overwriting, stale names\<close>


lemma HasTypeName_RegisterType:
  "HasTypeName reg nm \<Longrightarrow> HasTypeName (TypeRegistry_RegisterType tname cxa_demangle T custom_name reg) nm"
  by (simp add: HasTypeName_def TypeRegistry_RegisterType_def Let_def Mapping.lookup_update')

lemma HasTypeName_RegisterTypes:
  "HasTypeName reg nm \<Longrightarrow> HasTypeName (RegisterTypes tname cxa_demangle calls reg) nm"
proof (induction calls arbitrary: reg)
  case Nil
  then show ?case by simp
next
  case (Cons c calls)
  obtain U custom_name where c: "c = (U, custom_name)" by (cases c)
  from Cons.prems have "HasTypeName (TypeRegistry_RegisterType tname cxa_demangle U custom_name reg) nm"
    by (rule HasTypeName_RegisterType)
  from Cons.IH [OF this] c show ?case by simp
qed




text \<open>
  Claim C6, as amended. A call with a non-empty name \<open>n2\<close> makes \<open>GetTypeName<T>\<close>
  return \<open>n2\<close>, whatever name \<open>T\<close> had before; a call with the empty name stores the
  demangled name of \<open>T\<close> instead, and that is what \<open>GetTypeName<T>\<close> returns. After
  \<open>RegisterType<T1>(n)\<close> and \<open>RegisterType<T2>(n)\<close> with a non-empty \<open>n\<close> the reverse map
  sends \<open>n\<close> to the type id of \<open>T2\<close>, while both types carry the name \<open>n\<close>: the earlier
  reverse entry is overwritten and nothing reports it.
\<close>

theorem RegisterType_last_write_wins:
  "(n2 \<noteq> [] \<longrightarrow>
      GetTypeName tname
        (TypeRegistry_RegisterType tname cxa_demangle T n2
           (TypeRegistry_RegisterType tname cxa_demangle T n1 reg)) T = n2)
   \<and> (n2 = [] \<longrightarrow>
      GetTypeName tname
        (TypeRegistry_RegisterType tname cxa_demangle T n2
           (TypeRegistry_RegisterType tname cxa_demangle T n1 reg)) T
        = DemangleTypeName cxa_demangle (tname T))
   \<and> (n \<noteq> [] \<longrightarrow>
      Mapping.lookup (name_to_type_id'
        (TypeRegistry_RegisterType tname cxa_demangle T2 n
           (TypeRegistry_RegisterType tname cxa_demangle T1 n reg))) n = Some (tname T2)
      \<and> GetTypeName tname
          (TypeRegistry_RegisterType tname cxa_demangle T2 n
             (TypeRegistry_RegisterType tname cxa_demangle T1 n reg)) T2 = n
      \<and> (tname T1 \<noteq> tname T2 \<longrightarrow>
          GetTypeName tname
            (TypeRegistry_RegisterType tname cxa_demangle T2 n
               (TypeRegistry_RegisterType tname cxa_demangle T1 n reg)) T1 = n))"
  by (simp add: GetTypeName_def TypeRegistry_RegisterType_def Let_def)

theorem RegisterType_last_write_wins_witness:
  "GetTypeName typeid_name
     (TypeRegistry_RegisterType typeid_name demangler TestClass1 ''Second''
        (TypeRegistry_RegisterType typeid_name demangler TestClass1 ''First'' TypeRegistry_Instance))
     TestClass1 = ''Second''
   \<and> Mapping.lookup (name_to_type_id'
       (TypeRegistry_RegisterType typeid_name demangler TestClass2 ''Shared''
          (TypeRegistry_RegisterType typeid_name demangler TestClass1 ''Shared'' TypeRegistry_Instance)))
       ''Shared'' = Some ''10TestClass2''
   \<and> GetTypeName typeid_name
       (TypeRegistry_RegisterType typeid_name demangler TestClass2 ''Shared''
          (TypeRegistry_RegisterType typeid_name demangler TestClass1 ''Shared'' TypeRegistry_Instance))
       TestClass1 = ''Shared''"
proof -
  have a: "''Second'' \<noteq> []" and b: "''Shared'' \<noteq> []"
    and c: "typeid_name TestClass1 \<noteq> typeid_name TestClass2"
    by simp_all
  from RegisterType_last_write_wins
         [where tname = typeid_name and cxa_demangle = demangler and reg = TypeRegistry_Instance
            and T = TestClass1 and ?n1.0 = "''First''" and ?n2.0 = "''Second''"
            and ?T1.0 = TestClass1 and ?T2.0 = TestClass2 and n = "''Shared''"] a b c
  show ?thesis by simp
qed

text \<open>
  The claim as stated speaks of every name \<open>n2\<close>. The empty string is the default
  argument of \<open>RegisterType\<close> and selects the demangled name: after
  \<open>RegisterType<TestClass1>("First")\<close> and \<open>RegisterType<TestClass1>("")\<close> the name of the
  type is \<open>TestClass1\<close>, not the empty string.
\<close>

theorem RegisterType_empty_name_counterexample:
  "GetTypeName typeid_name
     (TypeRegistry_RegisterType typeid_name demangler TestClass1 []
        (TypeRegistry_RegisterType typeid_name demangler TestClass1 ''First'' TypeRegistry_Instance))
     TestClass1 = ''TestClass1''"
  by (simp add: GetTypeName_def TypeRegistry_RegisterType_def DemangleTypeName_def demangler_def Let_def)

text \<open>
  Claim C10, as amended. Let \<open>stale\<close> be the name that the first call stored for \<open>T\<close>:
  \<open>n1\<close>, or the demangled name of \<open>T\<close> when \<open>n1\<close> is empty. After the second call the
  reverse map still sends \<open>stale\<close> to the type id of \<open>T\<close>; \<open>HasTypeName(stale)\<close> is true
  then and after any further calls of \<open>RegisterType\<close>; and it is false after \<open>Clear\<close>.
\<close>

theorem stale_name_stays:
  assumes "stale = (if n1 = [] then DemangleTypeName cxa_demangle (tname T) else n1)"
  shows "Mapping.lookup (name_to_type_id'
           (TypeRegistry_RegisterType tname cxa_demangle T n2
              (TypeRegistry_RegisterType tname cxa_demangle T n1 reg))) stale = Some (tname T)
         \<and> HasTypeName
             (RegisterTypes tname cxa_demangle calls
               (TypeRegistry_RegisterType tname cxa_demangle T n2
                 (TypeRegistry_RegisterType tname cxa_demangle T n1 reg))) stale
         \<and> \<not> HasTypeName
             (TypeRegistry_Clear
               (RegisterTypes tname cxa_demangle calls
                 (TypeRegistry_RegisterType tname cxa_demangle T n2
                   (TypeRegistry_RegisterType tname cxa_demangle T n1 reg)))) stale"
proof -
  let ?reg = "TypeRegistry_RegisterType tname cxa_demangle T n2
                (TypeRegistry_RegisterType tname cxa_demangle T n1 reg)"
  have a: "Mapping.lookup (name_to_type_id' ?reg) stale = Some (tname T)"
    using assms by (simp add: TypeRegistry_RegisterType_def Let_def Mapping.lookup_update')
  then have "HasTypeName ?reg stale"
    by (simp add: HasTypeName_def)
  then have b: "HasTypeName (RegisterTypes tname cxa_demangle calls ?reg) stale"
    by (rule HasTypeName_RegisterTypes)
  have c: "\<not> HasTypeName (TypeRegistry_Clear (RegisterTypes tname cxa_demangle calls ?reg)) stale"
    by (simp add: HasTypeName_def TypeRegistry_Clear_def)
  from a b c show ?thesis by blast
qed

theorem stale_name_stays_witness:
  "HasTypeName
     (RegisterTypes typeid_name demangler [(TestClass2, ''First''), (NestedClass, [])]
        (TypeRegistry_RegisterType typeid_name demangler TestClass1 ''Second''
           (TypeRegistry_RegisterType typeid_name demangler TestClass1 ''First'' TypeRegistry_Instance)))
     ''First''
   \<and> Mapping.lookup (name_to_type_id'
        (TypeRegistry_RegisterType typeid_name demangler TestClass1 ''Second''
           (TypeRegistry_RegisterType typeid_name demangler TestClass1 ''First'' TypeRegistry_Instance)))
        ''First'' = Some ''10TestClass1''
   \<and> GetTypeName typeid_name
        (TypeRegistry_RegisterType typeid_name demangler TestClass1 ''Second''
           (TypeRegistry_RegisterType typeid_name demangler TestClass1 ''First'' TypeRegistry_Instance))
        TestClass1 = ''Second''"
proof -
  have a: "''First'' = (if ''First'' = [] then DemangleTypeName demangler (typeid_name TestClass1)
                        else ''First'')"
    by simp
  have g: "GetTypeName typeid_name
        (TypeRegistry_RegisterType typeid_name demangler TestClass1 ''Second''
           (TypeRegistry_RegisterType typeid_name demangler TestClass1 ''First'' TypeRegistry_Instance))
        TestClass1 = ''Second''"
    by (simp add: GetTypeName_def TypeRegistry_RegisterType_def Let_def)
  from stale_name_stays
         [where stale = "''First''" and ?n1.0 = "''First''" and ?n2.0 = "''Second''"
            and tname = typeid_name and cxa_demangle = demangler and T = TestClass1
            and reg = TypeRegistry_Instance
            and calls = "[(TestClass2, ''First''), (NestedClass, [])]", OF a] g
  show ?thesis by simp
qed

text \<open>
  The claim as stated speaks of every name \<open>n1\<close>. For the empty \<open>n1\<close> the entry that
  stays is the one under the demangled name, and \<open>HasTypeName("")\<close> is false.
\<close>

theorem stale_name_empty_counterexample:
  "\<not> HasTypeName
     (TypeRegistry_RegisterType typeid_name demangler TestClass1 ''Second''
        (TypeRegistry_RegisterType typeid_name demangler TestClass1 [] TypeRegistry_Instance)) []"
  by (simp add: HasTypeName_def TypeRegistry_RegisterType_def DemangleTypeName_def demangler_def
      TypeRegistry_Instance_def Let_def Mapping.lookup_update')

section \<open>SerializerRegistry: the checked downcast\<close>

lemma GetTypeSerializer_RegisterTypeSerializer:
  "GetTypeSerializer tname (RegisterTypeSerializer tname T f s reg) T f = s"
  by (simp add: GetTypeSerializer_def RegisterTypeSerializer_def dynamic_cast_def Get_def Let_def)

lemma GetTypeSerializer_serializers_update:
  "GetTypeSerializer tname (reg\<lparr>serializers' := generic\<rparr>) T f = GetTypeSerializer tname reg T f"
  by (simp add: GetTypeSerializer_def)

lemma GetTypeSerializer_no_entry:
  "\<not> HasTypeSerializer tname reg T f \<Longrightarrow> GetTypeSerializer tname reg T f = None"
  by (simp add: HasTypeSerializer_def GetTypeSerializer_def Let_def)

lemma GetSerializer_RegisterSerializer:
  "GetSerializer (RegisterSerializer nm s reg) nm' = (if nm = nm' then s else GetSerializer reg nm')"
  by (simp add: GetSerializer_def RegisterSerializer_def Mapping.lookup_update')

lemma GetTypeSerializer_RegisterSerializer:
  "GetTypeSerializer tname (RegisterSerializer nm s reg) T f = GetTypeSerializer tname reg T f"
  by (simp add: GetTypeSerializer_def RegisterSerializer_def)

lemma GetDescriptor_Instance: "GetDescriptor ReflectionRegistry_Instance nm = None"
  by (simp add: GetDescriptor_def ReflectionRegistry_Instance_def)

lemma GetSerializer_Instance: "GetSerializer SerializerRegistry_Instance nm = None"
  by (simp add: GetSerializer_def SerializerRegistry_Instance_def)

lemma GetTypeSerializer_Instance: "GetTypeSerializer tname SerializerRegistry_Instance T f = None"
  by (simp add: GetTypeSerializer_def SerializerRegistry_Instance_def)

text \<open>
  Claim C8. When the entry under the key of \<open>(T, f)\<close> is a wrapper of another type,
  \<open>GetTypeSerializer<T>(f)\<close> returns null, which is what it returns on a registry without
  any entry. Only \<open>HasTypeSerializer\<close>, which does not cast, tells the two apart.
\<close>

theorem failed_downcast_is_not_found:
  assumes "Mapping.lookup (type_serializers' sreg) (MakeTypeSerializerKey tname T f) = Some base"
    and "wrapped_type base \<noteq> T"
  shows "GetTypeSerializer tname sreg T f = None
         \<and> GetTypeSerializer tname sreg T f = GetTypeSerializer tname (SerializerRegistry_Clear sreg) T f
         \<and> HasTypeSerializer tname sreg T f"
  using assms
  by (simp add: GetTypeSerializer_def HasTypeSerializer_def dynamic_cast_def
      SerializerRegistry_Clear_def Let_def)

text \<open>
  Two classes named \<open>Point\<close> in the unnamed namespaces of two translation units share
  their \<open>typeid\<close> name, and so the key. The serializer registered for the first is found
  under the key of the second, and the cast refuses it.
\<close>

theorem failed_downcast_is_not_found_witness:
  "Mapping.lookup
     (type_serializers'
        (RegisterTypeSerializer typeid_name AnonPointA ''bin'' (Some PointTallySerializer)
           (SerializerRegistry_Instance :: (cpp_type, object, nat list) SerializerRegistry)))
     (MakeTypeSerializerKey typeid_name AnonPointB ''bin'')
     = Some \<lparr>wrapped_type = AnonPointA, serializer' = Some PointTallySerializer\<rparr>
   \<and> GetTypeSerializer typeid_name
       (RegisterTypeSerializer typeid_name AnonPointA ''bin'' (Some PointTallySerializer)
          (SerializerRegistry_Instance :: (cpp_type, object, nat list) SerializerRegistry))
       AnonPointB ''bin'' = None
   \<and> GetTypeSerializer typeid_name
       (RegisterTypeSerializer typeid_name AnonPointA ''bin'' (Some PointTallySerializer)
          (SerializerRegistry_Instance :: (cpp_type, object, nat list) SerializerRegistry))
       AnonPointA ''bin'' = Some PointTallySerializer"
proof -
  let ?reg = "RegisterTypeSerializer typeid_name AnonPointA ''bin'' (Some PointTallySerializer)
          (SerializerRegistry_Instance :: (cpp_type, object, nat list) SerializerRegistry)"
  have entry: "Mapping.lookup (type_serializers' ?reg) (MakeTypeSerializerKey typeid_name AnonPointB ''bin'')
     = Some \<lparr>wrapped_type = AnonPointA, serializer' = Some PointTallySerializer\<rparr>"
    by (simp add: RegisterTypeSerializer_def MakeTypeSerializerKey_def Let_def)
  have other: "wrapped_type \<lparr>wrapped_type = AnonPointA, serializer' = Some PointTallySerializer\<rparr> \<noteq> AnonPointB"
    by simp
  have own: "GetTypeSerializer typeid_name ?reg AnonPointA ''bin'' = Some PointTallySerializer"
    by (rule GetTypeSerializer_RegisterTypeSerializer)
  from failed_downcast_is_not_found [OF entry other] entry own
  show ?thesis by simp
qed

section \<open>SerializerFactory: dispatch\<close>

lemma foldl_AddField_eq:
  "foldl AddField \<lparr>message_name = c, fields' = []\<rparr> fs = \<lparr>message_name = c, fields' = fs\<rparr>"
  using fields_foldl_AddField [of "\<lparr>message_name = c, fields' = []\<rparr>" fs]
    message_name_foldl_AddField [of "\<lparr>message_name = c, fields' = []\<rparr>" fs]
  by simp

lemma GetDescriptor_GRLRPC_REGISTER_TYPE:
  "GetDescriptor (GRLRPC_REGISTER_TYPE class_type va_args reg) nm =
     (if nm = class_type then Some \<lparr>message_name = class_type, fields' = va_args\<rparr>
      else GetDescriptor reg nm)"
  by (simp add: GRLRPC_REGISTER_TYPE_def ReflectionRegistry_RegisterType_def GetDescriptor_def
      foldl_AddField_eq Mapping.lookup_update')

lemma shape_registry_generic: "GetSerializer shape_registry ''shape'' = Some ShapeSerializer"
  by (simp add: shape_registry_def GetSerializer_RegisterSerializer)

lemma shape_registry_specialized: "GetTypeSerializer typeid_name shape_registry T f = None"
  by (simp add: shape_registry_def GetTypeSerializer_RegisterSerializer GetTypeSerializer_Instance)

lemma shape_registry_no_entry: "\<not> HasTypeSerializer typeid_name shape_registry T f"
  by (simp add: shape_registry_def HasTypeSerializer_def RegisterSerializer_def
      SerializerRegistry_Instance_def)

lemma point_reflection_lookup:
  "GetDescriptor point_reflection nm =
     (if nm = ''Point'' then Some \<lparr>message_name = ''Point'', fields' = point_fields\<rparr> else None)"
  by (simp add: point_reflection_def GetDescriptor_GRLRPC_REGISTER_TYPE GetDescriptor_Instance)

lemma segment_reflection_lookup:
  "GetDescriptor segment_reflection nm =
     (if nm = ''Segment'' then Some \<lparr>message_name = ''Segment'', fields' = segment_fields\<rparr> else None)"
  by (simp add: segment_reflection_def GetDescriptor_GRLRPC_REGISTER_TYPE GetDescriptor_Instance)

lemma shape_of_point:
  "ISerializer_Serialize ShapeSerializer v \<lparr>message_name = ''Point'', fields' = point_fields\<rparr> out
     = (True, ''Point,x,y'')"
  by (simp add: ShapeSerializer_def point_fields_def member_field_def)

lemma shape_of_segment:
  "ISerializer_Serialize ShapeSerializer v \<lparr>message_name = ''Segment'', fields' = segment_fields\<rparr> out
     = (False, out)"
  by (simp add: ShapeSerializer_def segment_fields_def member_field_def)

lemma tally_registry_specialized:
  "GetTypeSerializer typeid_name tally_registry Point ''bin'' = Some PointTallySerializer"
  by (simp add: tally_registry_def GetTypeSerializer_RegisterTypeSerializer)

text \<open>
  Claim C1. When a specialized serializer is registered for \<open>(T, f)\<close>, by
  \<open>RegisterTypeSerializer<T>(f, ts)\<close> as the last step or in any way that makes the probe
  \<open>GetTypeSerializer<T>(f)\<close> find \<open>ts\<close>, then \<open>Serialize\<close> returns what \<open>ts\<close> returns, flag and
  output, success or failure. The generic serializers and the \<open>ReflectionRegistry\<close> have
  no part in the result: it is the same for every map \<open>generic\<close> of generic serializers
  and every registry \<open>rreg\<close> of descriptors.
\<close>

theorem specialized_serializer_precedence:
  assumes "sreg = RegisterTypeSerializer tname T f (Some ts) sreg0
           \<or> GetTypeSerializer tname sreg T f = Some ts"
  shows "Serialize tname cxa_demangle (sreg\<lparr>serializers' := generic\<rparr>) rreg T v f out
           = ITypeSerializer_Serialize ts v out"
proof -
  from assms have "GetTypeSerializer tname sreg T f = Some ts"
    by (auto simp add: GetTypeSerializer_RegisterTypeSerializer)
  then have "GetTypeSerializer tname (sreg\<lparr>serializers' := generic\<rparr>) T f = Some ts"
    by (simp add: GetTypeSerializer_serializers_update)
  then show ?thesis
    by (simp add: Serialize_def)
qed

text \<open>
  The scenario of the specification: a specialized serializer for \<open>Point\<close> under \<open>bin\<close>,
  no descriptor for \<open>Point\<close>, and \<open>Serialize(Point{1, 2}, "bin")\<close> succeeds.
\<close>

theorem specialized_serializer_precedence_witness:
  "GetDescriptor (ReflectionRegistry_Instance :: (object, nat list) ReflectionRegistry)
     (GetDemangled typeid_name demangler Point) = None
   \<and> Serialize typeid_name demangler tally_registry ReflectionRegistry_Instance
       Point [1, 2] ''bin'' [] = (True, ''xyy'')
   \<and> Serialize typeid_name demangler tally_registry ReflectionRegistry_Instance
       Point [1] ''bin'' ''old'' = (False, ''old'')"
proof -
  have reg: "tally_registry = RegisterTypeSerializer typeid_name Point ''bin'' (Some PointTallySerializer)
               SerializerRegistry_Instance
             \<or> GetTypeSerializer typeid_name tally_registry Point ''bin'' = Some PointTallySerializer"
    by (simp add: tally_registry_def)
  have same: "tally_registry\<lparr>serializers' := serializers' tally_registry\<rparr> = tally_registry"
    by simp
  have run: "ITypeSerializer_Serialize PointTallySerializer [1, 2] [] = (True, ''xyy'')"
    by (simp add: PointTallySerializer_def eval_nat_numeral)
  have fail: "ITypeSerializer_Serialize PointTallySerializer [1] ''old'' = (False, ''old'')"
    by (simp add: PointTallySerializer_def)
  have none: "GetDescriptor (ReflectionRegistry_Instance :: (object, nat list) ReflectionRegistry)
     (GetDemangled typeid_name demangler Point) = None"
    by (rule GetDescriptor_Instance)
  from specialized_serializer_precedence [OF reg, of demangler "serializers' tally_registry"
      ReflectionRegistry_Instance "[1, 2]" "[]"]
    specialized_serializer_precedence [OF reg, of demangler "serializers' tally_registry"
      ReflectionRegistry_Instance "[1]" "''old''"] same run fail none
  show ?thesis by simp
qed

text \<open>
  Claim C2, as amended. When the probe finds no specialized serializer for \<open>(T, f)\<close>, a
  generic serializer \<open>gs\<close> is registered under \<open>f\<close>, and a descriptor \<open>d\<close> is stored
  under the demangled name of \<open>T\<close>, then \<open>Serialize\<close> returns what \<open>gs\<close> returns for the
  object and \<open>d\<close>: the same flag and the same output.
\<close>

theorem generic_fallback:
  assumes "GetTypeSerializer tname sreg T f = None"
    and "GetSerializer sreg f = Some gs"
    and "GetDescriptor rreg (GetDemangled tname cxa_demangle T) = Some d"
  shows "Serialize tname cxa_demangle sreg rreg T v f out = ISerializer_Serialize gs v d out"
  using assms by (simp add: Serialize_def)

text \<open>
  \<open>GRLRPC_REGISTER_TYPE(Point, ...)\<close> for the class \<open>Point\<close> of the global namespace: the
  spelling of the macro argument is the demangled name, and the fallback finds the
  descriptor.
\<close>

theorem generic_fallback_witness:
  "GetTypeSerializer typeid_name shape_registry Point ''shape'' = None
   \<and> GetSerializer shape_registry ''shape'' = Some ShapeSerializer
   \<and> GetDescriptor point_reflection (GetDemangled typeid_name demangler Point)
       = Some \<lparr>message_name = ''Point'', fields' = point_fields\<rparr>
   \<and> Serialize typeid_name demangler shape_registry point_reflection Point [3, 4] ''shape'' []
       = (True, ''Point,x,y'')"
proof -
  have d: "GetDescriptor point_reflection (GetDemangled typeid_name demangler Point)
       = Some \<lparr>message_name = ''Point'', fields' = point_fields\<rparr>"
    by (simp add: point_reflection_lookup GetDemangled_def demangler_def)
  from generic_fallback [OF shape_registry_specialized shape_registry_generic d, of "[3, 4]" "[]"]
    shape_of_point [of "[3, 4]" "[]"] shape_registry_specialized [of Point "''shape''"]
    shape_registry_generic d
  show ?thesis by simp
qed

text \<open>
  The claim as stated fails in two ways. The macro stores the descriptor under the
  spelling of its argument, and the Factory looks under the demangled name: for the
  class \<open>Point\<close> of namespace \<open>app\<close>, registered inside that namespace, these are \<open>Point\<close>
  and \<open>app::Point\<close>, and \<open>Serialize\<close> returns false although the generic serializer,
  called with the registered descriptor, succeeds. And where the descriptor is found,
  \<open>Serialize\<close> succeeds only if the generic serializer does: the shape serializer
  rejects the descriptor of \<open>Segment\<close>, and so does the Factory.
\<close>

theorem generic_fallback_counterexample:
  "\<not> HasTypeSerializer typeid_name shape_registry AppPoint ''shape''
   \<and> GetSerializer shape_registry ''shape'' = Some ShapeSerializer
   \<and> GetDescriptor point_reflection ''Point''
       = Some \<lparr>message_name = ''Point'', fields' = point_fields\<rparr>
   \<and> ISerializer_Serialize ShapeSerializer [3, 4] \<lparr>message_name = ''Point'', fields' = point_fields\<rparr> []
       = (True, ''Point,x,y'')
   \<and> Serialize typeid_name demangler shape_registry point_reflection AppPoint [3, 4] ''shape'' []
       = (False, [])
   \<and> \<not> HasTypeSerializer typeid_name shape_registry Segment ''shape''
   \<and> GetDescriptor segment_reflection (GetDemangled typeid_name demangler Segment)
       = Some \<lparr>message_name = ''Segment'', fields' = segment_fields\<rparr>
   \<and> Serialize typeid_name demangler shape_registry segment_reflection Segment [1, 2, 3, 4] ''shape'' []
       = (False, [])"
proof -
  have a: "Serialize typeid_name demangler shape_registry point_reflection AppPoint [3, 4] ''shape'' []
       = (False, [])"
    by (simp add: Serialize_def shape_registry_specialized shape_registry_generic
        point_reflection_lookup GetDemangled_def demangler_def)
  have b: "GetDescriptor segment_reflection (GetDemangled typeid_name demangler Segment)
       = Some \<lparr>message_name = ''Segment'', fields' = segment_fields\<rparr>"
    by (simp add: segment_reflection_lookup GetDemangled_def demangler_def)
  have c: "Serialize typeid_name demangler shape_registry segment_reflection Segment [1, 2, 3, 4] ''shape'' []
       = (False, [])"
    by (simp add: Serialize_def shape_registry_specialized shape_registry_generic b shape_of_segment)
  from a b c shape_registry_no_entry shape_registry_generic shape_of_point point_reflection_lookup
  show ?thesis by simp
qed

text \<open>
  Claim C3. When the probe finds no specialized serializer for \<open>(T, f)\<close>, and no
  descriptor is stored under the demangled name of \<open>T\<close> or no generic serializer is
  registered under \<open>f\<close>, then \<open>Serialize\<close> and \<open>Deserialize\<close> both return false, and the
  caller's output string and object are as they were.
\<close>

theorem Factory_fails_closed:
  assumes "GetTypeSerializer tname sreg T f = None"
    and "GetDescriptor rreg (GetDemangled tname cxa_demangle T) = None \<or> GetSerializer sreg f = None"
  shows "Serialize tname cxa_demangle sreg rreg T v f out = (False, out)
         \<and> Deserialize tname cxa_demangle sreg rreg T s v f = (False, v)"
  using assms
  by (auto simp add: Serialize_def Deserialize_def Let_def split: option.splits)

theorem Factory_fails_closed_witness:
  "GetTypeSerializer typeid_name shape_registry NestedClass ''shape'' = None
   \<and> GetDescriptor point_reflection (GetDemangled typeid_name demangler NestedClass) = None
   \<and> Serialize typeid_name demangler shape_registry point_reflection NestedClass [7] ''shape'' ''old''
       = (False, ''old'')
   \<and> Deserialize typeid_name demangler shape_registry point_reflection NestedClass ''data'' [7] ''shape''
       = (False, [7])"
proof -
  have a: "GetTypeSerializer typeid_name shape_registry NestedClass ''shape'' = None"
    by (simp add: shape_registry_def GetTypeSerializer_RegisterSerializer GetTypeSerializer_Instance)
  have b: "GetDescriptor point_reflection (GetDemangled typeid_name demangler NestedClass) = None"
    by (simp add: point_reflection_def GetDescriptor_GRLRPC_REGISTER_TYPE GetDescriptor_Instance
        GetDemangled_def demangler_def)
  from b have c: "GetDescriptor point_reflection (GetDemangled typeid_name demangler NestedClass) = None
      \<or> GetSerializer shape_registry ''shape'' = None"
    by simp
  from Factory_fails_closed [OF a c, of "[7]" "''old''" "''data''"] a b
  show ?thesis by simp
qed

text \<open>
  Claim C4, as amended. \<open>Serialize\<close> and \<open>Deserialize\<close> select the same serializer for
  \<open>(T, f)\<close>: the specialized one if the probe finds it, otherwise the generic one
  registered under \<open>f\<close> with the descriptor stored under the demangled name of \<open>T\<close>.
  Each returns exactly what the selected serializer returns, on success and on
  failure, so \<open>Deserialize\<close> applied to the output of \<open>Serialize\<close> returns exactly what
  the selected serializer returns for its own output; the Factory reproduces \<open>v\<close>
  whenever the selected serializer does, and only then. When nothing is selected both
  return false.
\<close>

theorem Factory_roundtrip_follows_serializer:
  "(GetTypeSerializer tname sreg T f = Some ts \<longrightarrow>
      Serialize tname cxa_demangle sreg rreg T v f out = ITypeSerializer_Serialize ts v out
      \<and> Deserialize tname cxa_demangle sreg rreg T enc obj f = ITypeSerializer_Deserialize ts enc obj
      \<and> Deserialize tname cxa_demangle sreg rreg T
            (snd (Serialize tname cxa_demangle sreg rreg T v f out)) obj f
          = ITypeSerializer_Deserialize ts (snd (ITypeSerializer_Serialize ts v out)) obj)
   \<and> (GetTypeSerializer tname sreg T f = None \<and> GetSerializer sreg f = Some gs
        \<and> GetDescriptor rreg (GetDemangled tname cxa_demangle T) = Some d \<longrightarrow>
      Serialize tname cxa_demangle sreg rreg T v f out = ISerializer_Serialize gs v d out
      \<and> Deserialize tname cxa_demangle sreg rreg T enc obj f = ISerializer_Deserialize gs enc obj d
      \<and> Deserialize tname cxa_demangle sreg rreg T
            (snd (Serialize tname cxa_demangle sreg rreg T v f out)) obj f
          = ISerializer_Deserialize gs (snd (ISerializer_Serialize gs v d out)) obj d)
   \<and> (GetTypeSerializer tname sreg T f = None
        \<and> (GetSerializer sreg f = None
             \<or> GetDescriptor rreg (GetDemangled tname cxa_demangle T) = None) \<longrightarrow>
      Serialize tname cxa_demangle sreg rreg T v f out = (False, out)
      \<and> Deserialize tname cxa_demangle sreg rreg T enc obj f = (False, obj))"
  by (auto simp add: Serialize_def Deserialize_def split: option.splits)

text \<open>
  The tally serializer is selected for \<open>Point\<close> under \<open>bin\<close>: the Factory round-trips
  \<open>Point{3, 4}\<close> as the serializer does, and fails on a malformed object as the
  serializer does.
\<close>

theorem Factory_roundtrip_follows_serializer_witness:
  "Serialize typeid_name demangler tally_registry point_reflection Point [3, 4] ''bin'' []
     = (True, ''xxxyyyy'')
   \<and> Deserialize typeid_name demangler tally_registry point_reflection Point ''xxxyyyy'' [0, 0] ''bin''
     = (True, [3, 4])
   \<and> Deserialize typeid_name demangler tally_registry point_reflection Point
       (snd (Serialize typeid_name demangler tally_registry point_reflection Point [3, 4] ''bin'' []))
       [0, 0] ''bin''
     = (True, [3, 4])
   \<and> Serialize typeid_name demangler tally_registry point_reflection Point [3] ''bin'' ''old''
     = (False, ''old'')"
proof -
  have enc: "ITypeSerializer_Serialize PointTallySerializer [3, 4] [] = (True, ''xxxyyyy'')"
    by (simp add: PointTallySerializer_def eval_nat_numeral)
  have dec: "ITypeSerializer_Deserialize PointTallySerializer ''xxxyyyy'' [0, 0] = (True, [3, 4])"
    by (simp add: PointTallySerializer_def)
  have bad: "ITypeSerializer_Serialize PointTallySerializer [3] ''old'' = (False, ''old'')"
    by (simp add: PointTallySerializer_def)
  note good = Factory_roundtrip_follows_serializer
      [where tname = typeid_name and cxa_demangle = demangler and sreg = tally_registry
         and rreg = point_reflection and T = Point and f = "''bin''" and ts = PointTallySerializer
         and v = "[3, 4]" and out = "[]" and enc = "''xxxyyyy''" and obj = "[0, 0]"]
  note fail = Factory_roundtrip_follows_serializer
      [where tname = typeid_name and cxa_demangle = demangler and sreg = tally_registry
         and rreg = point_reflection and T = Point and f = "''bin''" and ts = PointTallySerializer
         and v = "[3]" and out = "''old''" and enc = "''xxxyyyy''" and obj = "[0, 0]"]
  from good tally_registry_specialized enc dec
  have a: "Serialize typeid_name demangler tally_registry point_reflection Point [3, 4] ''bin'' []
             = (True, ''xxxyyyy'')
      \<and> Deserialize typeid_name demangler tally_registry point_reflection Point ''xxxyyyy'' [0, 0] ''bin''
             = (True, [3, 4])"
    by simp
  from fail tally_registry_specialized bad
  have b: "Serialize typeid_name demangler tally_registry point_reflection Point [3] ''bin'' ''old''
             = (False, ''old'')"
    by simp
  from a b show ?thesis by simp
qed

text \<open>
  The claim as stated speaks of every registered serializer. The framework holds no
  serializer of its own and accepts any implementation of the interfaces: with the
  shape serializer registered, \<open>Point{3, 4}\<close> is serialized with success, and
  deserializing the result into \<open>Point{0, 0}\<close> succeeds and leaves \<open>Point{0, 0}\<close>, whose
  fields differ from those of \<open>Point{3, 4}\<close>.
\<close>

theorem roundtrip_counterexample:
  "Serialize typeid_name demangler shape_registry point_reflection Point [3, 4] ''shape'' []
     = (True, ''Point,x,y'')
   \<and> Deserialize typeid_name demangler shape_registry point_reflection Point ''Point,x,y'' [0, 0] ''shape''
     = (True, [0, 0])
   \<and> map (\<lambda>field. getter field [0, 0]) point_fields
       \<noteq> map (\<lambda>field. getter field [3, 4]) point_fields"
proof -
  have d: "GetDescriptor point_reflection (GetDemangled typeid_name demangler Point)
       = Some \<lparr>message_name = ''Point'', fields' = point_fields\<rparr>"
    by (simp add: point_reflection_lookup GetDemangled_def demangler_def)
  have a: "Serialize typeid_name demangler shape_registry point_reflection Point [3, 4] ''shape'' []
     = (True, ''Point,x,y'')"
    by (simp add: Serialize_def shape_registry_specialized shape_registry_generic d shape_of_point)
  have b: "Deserialize typeid_name demangler shape_registry point_reflection Point ''Point,x,y'' [0, 0] ''shape''
     = (True, [0, 0])"
    by (simp add: Deserialize_def shape_registry_specialized shape_registry_generic d ShapeSerializer_def)
  have c: "map (\<lambda>field. getter field [0, 0]) point_fields
       \<noteq> map (\<lambda>field. getter field [3, 4]) point_fields"
    by (simp add: point_fields_def member_field_def)
  from a b c show ?thesis by simp
qed

section \<open>Clear\<close>

text \<open>
  Claim C9. After \<open>Clear\<close> every presence check fails, whatever the registry held
  before and whatever is asked for: \<open>IsTypeRegistered\<close>, \<open>HasTypeName\<close> and a count of 0
  for the \<open>TypeRegistry\<close>; \<open>HasType\<close> and \<open>GetDescriptor\<close> for the \<open>ReflectionRegistry\<close>;
  \<open>GetSerializer\<close>, \<open>HasTypeSerializer\<close> and \<open>GetTypeSerializer\<close> for the
  \<open>SerializerRegistry\<close>.
\<close>

theorem Clear_isolation:
  "\<not> IsTypeRegistered tname (TypeRegistry_Clear treg) T
   \<and> \<not> HasTypeName (TypeRegistry_Clear treg) type_name
   \<and> GetRegisteredTypeCount (TypeRegistry_Clear treg) = 0
   \<and> \<not> HasType (ReflectionRegistry_Clear rreg) type_name
   \<and> GetDescriptor (ReflectionRegistry_Clear rreg) type_name = None
   \<and> GetSerializer (SerializerRegistry_Clear sreg) serializer_name = None
   \<and> \<not> HasTypeSerializer tname (SerializerRegistry_Clear sreg) T serializer_name
   \<and> GetTypeSerializer tname (SerializerRegistry_Clear sreg) T serializer_name = None"
  by (simp add: IsTypeRegistered_def HasTypeName_def GetRegisteredTypeCount_def
      TypeRegistry_Clear_def HasType_def GetDescriptor_def ReflectionRegistry_Clear_def
      GetSerializer_def HasTypeSerializer_def GetTypeSerializer_def SerializerRegistry_Clear_def)

text \<open>
  The registries of the examples before and after \<open>Clear\<close>: what was present is gone.
\<close>

theorem Clear_isolation_witness:
  "IsTypeRegistered typeid_name
     (RegisterTypes typeid_name demangler [(TestClass1, []), (TestClass2, ''CustomName'')]
        TypeRegistry_Instance) TestClass1
   \<and> \<not> IsTypeRegistered typeid_name
     (TypeRegistry_Clear
        (RegisterTypes typeid_name demangler [(TestClass1, []), (TestClass2, ''CustomName'')]
           TypeRegistry_Instance)) TestClass1
   \<and> HasTypeName
     (RegisterTypes typeid_name demangler [(TestClass1, []), (TestClass2, ''CustomName'')]
        TypeRegistry_Instance) ''CustomName''
   \<and> \<not> HasTypeName
     (TypeRegistry_Clear
        (RegisterTypes typeid_name demangler [(TestClass1, []), (TestClass2, ''CustomName'')]
           TypeRegistry_Instance)) ''CustomName''
   \<and> GetRegisteredTypeCount
     (RegisterTypes typeid_name demangler [(TestClass1, []), (TestClass2, ''CustomName'')]
        TypeRegistry_Instance) = 2
   \<and> GetRegisteredTypeCount
     (TypeRegistry_Clear
        (RegisterTypes typeid_name demangler [(TestClass1, []), (TestClass2, ''CustomName'')]
           TypeRegistry_Instance)) = 0
   \<and> HasType point_reflection ''Point''
   \<and> \<not> HasType (ReflectionRegistry_Clear point_reflection) ''Point''
   \<and> GetDescriptor (ReflectionRegistry_Clear point_reflection) ''Point'' = None
   \<and> GetSerializer shape_registry ''shape'' = Some ShapeSerializer
   \<and> GetSerializer (SerializerRegistry_Clear shape_registry) ''shape'' = None
   \<and> HasTypeSerializer typeid_name tally_registry Point ''bin''
   \<and> \<not> HasTypeSerializer typeid_name (SerializerRegistry_Clear tally_registry) Point ''bin''
   \<and> GetTypeSerializer typeid_name (SerializerRegistry_Clear tally_registry) Point ''bin'' = None"
proof -
  let ?reg = "RegisterTypes typeid_name demangler [(TestClass1, []), (TestClass2, ''CustomName'')]
        TypeRegistry_Instance"
  have before_types: "IsTypeRegistered typeid_name ?reg TestClass1 \<and> HasTypeName ?reg ''CustomName''"
    by (simp add: IsTypeRegistered_def HasTypeName_def TypeRegistry_RegisterType_def Let_def)
  have before_count: "GetRegisteredTypeCount ?reg = 2"
    by (simp add: GetRegisteredTypeCount_def TypeRegistry_RegisterType_def TypeRegistry_Instance_def
        Let_def Mapping.size_def)
  have before_desc: "HasType point_reflection ''Point''"
    using point_reflection_lookup [of "''Point''"] by (simp add: HasType_def GetDescriptor_def)
  have before_spec: "HasTypeSerializer typeid_name tally_registry Point ''bin''"
    by (simp add: HasTypeSerializer_def tally_registry_def RegisterTypeSerializer_def Let_def)
  note first = Clear_isolation
      [where tname = typeid_name and treg = ?reg and T = TestClass1 and type_name = "''CustomName''"
         and rreg = point_reflection and sreg = shape_registry and serializer_name = "''shape''"]
  note second = Clear_isolation
      [where tname = typeid_name and treg = ?reg and T = Point and type_name = "''Point''"
         and rreg = point_reflection and sreg = tally_registry and serializer_name = "''bin''"]
  from first have after_types: "\<not> IsTypeRegistered typeid_name (TypeRegistry_Clear ?reg) TestClass1
      \<and> \<not> HasTypeName (TypeRegistry_Clear ?reg) ''CustomName''
      \<and> GetRegisteredTypeCount (TypeRegistry_Clear ?reg) = 0"
    by blast
  from second have after_desc: "\<not> HasType (ReflectionRegistry_Clear point_reflection) ''Point''
      \<and> GetDescriptor (ReflectionRegistry_Clear point_reflection) ''Point'' = None"
    by blast
  from first have after_gen: "GetSerializer (SerializerRegistry_Clear shape_registry) ''shape'' = None"
    by blast
  from second
  have after_spec: "\<not> HasTypeSerializer typeid_name (SerializerRegistry_Clear tally_registry) Point ''bin''
      \<and> GetTypeSerializer typeid_name (SerializerRegistry_Clear tally_registry) Point ''bin'' = None"
    by blast
  from before_types before_count before_desc before_spec after_types after_desc after_gen after_spec
    shape_registry_generic
  show ?thesis by simp
qed

end
